theory Spec2Isabelle
  imports Main "HOL-Library.Char_ord" "HOL-Library.List_Lexorder"
begin

section \<open>JavaScript values and thrown values\<close>

text \<open>
  Strings are byte strings: the UTF-8 form of the JavaScript string. All the characters
  the code and the platform look at (slashes, braces, separators, ASCII letters) are
  single bytes.
\<close>

datatype json =
    JNull
  | JBool bool
  | JNumber int
  | JString string
  | JArray "json list"
  | JObject "(string \<times> json) list"

text \<open>
  An issue of a schema failure: the path of the field and a message. A validation
  error is the library's error class: a kind with its HTTP status, a message, and the
  issues when a schema rejected the input.
\<close>

record issue =
  issue_path :: "string list"
  issue_message :: string

datatype kind = NotFound | UnsupportedMediaType | UnprocessableEntity | Internal | OtherStatus nat

fun status_of :: "kind \<Rightarrow> nat" where
  "status_of NotFound = 404"
| "status_of UnsupportedMediaType = 415"
| "status_of UnprocessableEntity = 422"
| "status_of Internal = 500"
| "status_of (OtherStatus n) = n"

record validation_error =
  ve_kind :: kind
  ve_message :: string
  ve_issues :: "issue list option"

definition ve_status :: "validation_error \<Rightarrow> nat" where
  "ve_status e = status_of (ve_kind e)"

text \<open>
  What a JavaScript \<open>throw\<close> can carry: a validation error, another \<open>Error\<close> object
  (its name and message), or any value that is no error object at all.
\<close>

datatype thrown =
    Validation validation_error
  | ErrorObject string string
  | NonError json

abbreviation TypeError :: "string \<Rightarrow> thrown" where
  "TypeError msg \<equiv> ErrorObject ''TypeError'' msg"

section \<open>The platform: URL, Headers, Request, Response\<close>

text \<open>
  The adapters build their requests with the platform's \<open>URL\<close>, \<open>Headers\<close> and
  \<open>Request\<close> classes (WHATWG URL and Fetch, as Node implements them). This section
  models the part of those classes the adapters use. Every exception a constructor
  throws is a \<open>TypeError\<close> and is the \<open>Inl\<close> branch of the result.
\<close>

subsection \<open>Characters\<close>

definition is_digit :: "char \<Rightarrow> bool" where
  "is_digit c = (CHR ''0'' \<le> c \<and> c \<le> CHR ''9'')"

definition is_upper :: "char \<Rightarrow> bool" where
  "is_upper c = (CHR ''A'' \<le> c \<and> c \<le> CHR ''Z'')"

definition is_lower :: "char \<Rightarrow> bool" where
  "is_lower c = (CHR ''a'' \<le> c \<and> c \<le> CHR ''z'')"

definition is_alpha :: "char \<Rightarrow> bool" where
  "is_alpha c = (is_upper c \<or> is_lower c)"

definition is_alnum :: "char \<Rightarrow> bool" where
  "is_alnum c = (is_alpha c \<or> is_digit c)"

text \<open>\<open>String.prototype.toLowerCase\<close> and \<open>toUpperCase\<close> on ASCII letters.\<close>

definition lower_char :: "char \<Rightarrow> char" where
  "lower_char c = (if is_upper c then char_of (of_char c + (32::nat)) else c)"

definition upper_char :: "char \<Rightarrow> char" where
  "upper_char c = (if is_lower c then char_of (of_char c - (32::nat)) else c)"

definition toLowerCase :: "string \<Rightarrow> string" where
  "toLowerCase s = map lower_char s"

definition toUpperCase :: "string \<Rightarrow> string" where
  "toUpperCase s = map upper_char s"

definition hex_value :: "char \<Rightarrow> nat option" where
  "hex_value c =
     (if is_digit c then Some (of_char c - 48)
      else if CHR ''A'' \<le> c \<and> c \<le> CHR ''F'' then Some (of_char c - 55)
      else if CHR ''a'' \<le> c \<and> c \<le> CHR ''f'' then Some (of_char c - 87)
      else None)"

definition hex_digit :: "nat \<Rightarrow> char" where
  "hex_digit n = (if n < 10 then char_of (48 + n) else char_of (55 + n))"

definition percent_encode :: "char \<Rightarrow> string" where
  "percent_encode c =
     [CHR ''%'', hex_digit (of_char c div 16), hex_digit (of_char c mod 16)]"

text \<open>
  Percent-decoding: a percent sign followed by two hexadecimal digits is the byte they
  spell; any other percent sign stays.
\<close>

fun percent_decode :: "string \<Rightarrow> string" where
  "percent_decode [] = []"
| "percent_decode [c] = [c]"
| "percent_decode [c, d] = [c, d]"
| "percent_decode (c # d # e # cs) =
     (if c = CHR ''%'' then
        (case (hex_value d, hex_value e) of
           (Some h, Some l) \<Rightarrow> char_of (16 * h + l) # percent_decode cs
         | _ \<Rightarrow> c # percent_decode (d # e # cs))
      else c # percent_decode (d # e # cs))"

text \<open>Splitting a string at every character of a class; \<open>n\<close> separators give \<open>n + 1\<close> pieces.\<close>

fun split_on :: "(char \<Rightarrow> bool) \<Rightarrow> string \<Rightarrow> string list" where
  "split_on P [] = [[]]"
| "split_on P (c # cs) =
     (if P c then [] # split_on P cs
      else (case split_on P cs of [] \<Rightarrow> [[c]] | p # ps \<Rightarrow> (c # p) # ps))"

fun join :: "string \<Rightarrow> string list \<Rightarrow> string" where
  "join sep [] = []"
| "join sep [x] = x"
| "join sep (x # y # ys) = x @ sep @ join sep (y # ys)"

subsection \<open>The query string as a list of name-value pairs\<close>

text \<open>
  The \<open>application/x-www-form-urlencoded\<close> parser of the URL standard: the pieces
  between ampersands, the empty ones dropped; a piece is split at its first equals
  sign; plus signs become spaces; then name and value are percent-decoded.
\<close>

definition plus_to_space :: "string \<Rightarrow> string" where
  "plus_to_space s = map (\<lambda>c. if c = CHR ''+'' then CHR '' '' else c) s"

definition parse_pair :: "string \<Rightarrow> string \<times> string" where
  "parse_pair piece =
     (let name = takeWhile (\<lambda>c. c \<noteq> CHR ''='') piece;
          rest = dropWhile (\<lambda>c. c \<noteq> CHR ''='') piece
      in (percent_decode (plus_to_space name), percent_decode (plus_to_space (tl rest))))"

definition parse_urlencoded :: "string \<Rightarrow> (string \<times> string) list" where
  "parse_urlencoded s =
     map parse_pair (filter (\<lambda>p. p \<noteq> []) (split_on (\<lambda>c. c = CHR ''&'') s))"

text \<open>
  The serialiser: letters, digits and \<open>* - . _\<close> stay, a space becomes a plus sign,
  every other byte is percent-encoded.
\<close>

definition urlencode_char :: "char \<Rightarrow> string" where
  "urlencode_char c =
     (if is_alnum c \<or> c \<in> set ''*-._'' then [c]
      else if c = CHR '' '' then ''+''
      else percent_encode c)"

definition urlencode :: "string \<Rightarrow> string" where
  "urlencode s = concat (map urlencode_char s)"

definition serialize_urlencoded :: "(string \<times> string) list \<Rightarrow> string" where
  "serialize_urlencoded ps = join ''&'' (map (\<lambda>(n, v). urlencode n @ ''='' @ urlencode v) ps)"

subsection \<open>URL\<close>

text \<open>
  A parsed URL. The model covers the URLs the adapters build: a special scheme
  (\<open>http\<close>, \<open>https\<close>, \<open>ws\<close>, \<open>wss\<close>, \<open>ftp\<close>) with an authority. The path is the list
  of its segments; the query and the fragment are absent (\<open>None\<close>) or a string. The
  URL's \<open>searchParams\<close> object is the list of pairs read from the query when the URL is
  made and kept beside it afterwards.

  Outside the model, and different on the platform: host names that are IP literals,
  end in a number or have non-ASCII characters (the platform rewrites them, the model
  keeps ASCII names as written and rejects the others), and URLs of the other schemes
  (\<open>file\<close>, \<open>data\<close>, \<open>mailto\<close>: the platform accepts them, the model rejects them).
\<close>

record url =
  url_scheme :: string
  url_username :: string
  url_password :: string
  url_host :: string
  url_port :: "nat option"
  url_path :: "string list"
  url_query :: "string option"
  url_fragment :: "string option"
  url_searchParams :: "(string \<times> string) list"

definition invalid_url :: thrown where
  "invalid_url = TypeError ''Invalid URL''"

definition is_special :: "string \<Rightarrow> bool" where
  "is_special s = (s \<in> set [''http'', ''https'', ''ws'', ''wss'', ''ftp''])"

definition default_port :: "string \<Rightarrow> nat option" where
  "default_port s =
     (if s = ''http'' \<or> s = ''ws'' then Some 80
      else if s = ''https'' \<or> s = ''wss'' then Some 443
      else if s = ''ftp'' then Some 21
      else None)"

definition is_slash :: "char \<Rightarrow> bool" where
  "is_slash c = (c = CHR ''/'' \<or> c = CHR 0x5C)"

text \<open>The percent-encode sets of the URL standard, by byte value.\<close>

definition c0_or_above :: "char \<Rightarrow> bool" where
  "c0_or_above c = ((of_char c :: nat) < 0x20 \<or> (of_char c :: nat) > 0x7E)"

definition query_set :: "char \<Rightarrow> bool" where
  "query_set c = (c0_or_above c \<or> (of_char c :: nat) \<in> set [0x20, 0x22, 0x23, 0x3C, 0x3E])"

definition special_query_set :: "char \<Rightarrow> bool" where
  "special_query_set c = (query_set c \<or> (of_char c :: nat) = 0x27)"

definition path_set :: "char \<Rightarrow> bool" where
  "path_set c = (query_set c \<or> (of_char c :: nat) \<in> set [0x3F, 0x5E, 0x60, 0x7B, 0x7D])"

definition fragment_set :: "char \<Rightarrow> bool" where
  "fragment_set c = (c0_or_above c \<or> (of_char c :: nat) \<in> set [0x20, 0x22, 0x3C, 0x3E, 0x60])"

definition encode_with :: "(char \<Rightarrow> bool) \<Rightarrow> string \<Rightarrow> string" where
  "encode_with P s = concat (map (\<lambda>c. if P c then percent_encode c else [c]) s)"

text \<open>
  The parser first strips leading and trailing C0 controls and spaces and removes
  every tab and newline.
\<close>

definition is_tab_or_newline :: "char \<Rightarrow> bool" where
  "is_tab_or_newline c = ((of_char c :: nat) \<in> set [0x09, 0x0A, 0x0D])"

definition remove_tab_newline :: "string \<Rightarrow> string" where
  "remove_tab_newline s = filter (\<lambda>c. \<not> is_tab_or_newline c) s"

definition c0_or_space :: "char \<Rightarrow> bool" where
  "c0_or_space c = ((of_char c :: nat) \<le> 0x20)"

definition preprocess :: "string \<Rightarrow> string" where
  "preprocess s =
     remove_tab_newline (rev (dropWhile c0_or_space (rev (dropWhile c0_or_space s))))"

text \<open>
  A scheme is a letter followed by letters, digits, \<open>+\<close>, \<open>-\<close> and \<open>.\<close>, and ends
  at a colon. \<open>scheme_of\<close> gives the scheme in lower case and the text after the colon.
\<close>

definition scheme_char :: "char \<Rightarrow> bool" where
  "scheme_char c = (is_alnum c \<or> c \<in> set ''+-.'')"

definition scheme_of :: "string \<Rightarrow> (string \<times> string) option" where
  "scheme_of s =
     (case s of
        [] \<Rightarrow> None
      | c # _ \<Rightarrow>
          if is_alpha c then
            (case dropWhile scheme_char s of
               [] \<Rightarrow> None
             | d # rest \<Rightarrow>
                 if d = CHR '':'' then Some (toLowerCase (takeWhile scheme_char s), rest)
                 else None)
          else None)"

text \<open>
  The host of a special URL: percent-decoded, in lower case, not empty, and free of
  the forbidden domain code points.
\<close>

definition forbidden_domain :: "char \<Rightarrow> bool" where
  "forbidden_domain c =
     ((of_char c :: nat) \<le> 0x20 \<or> (of_char c :: nat) \<ge> 0x7F \<or>
      (of_char c :: nat) \<in> set [0x23, 0x25, 0x2F, 0x3A, 0x3C, 0x3E, 0x3F, 0x40,
                                  0x5B, 0x5C, 0x5D, 0x5E, 0x7C])"

definition parse_host :: "string \<Rightarrow> string option" where
  "parse_host h =
     (let d = toLowerCase (percent_decode h)
      in if d = [] \<or> list_ex forbidden_domain d then None else Some d)"

definition decimal :: "string \<Rightarrow> nat" where
  "decimal s = foldl (\<lambda>n c. 10 * n + (of_char c - 48)) 0 s"

text \<open>
  The port: absent when nothing follows the colon, a failure when it is not a number
  or is above 65535, and dropped when it is the scheme's default port.
\<close>

definition parse_port :: "string \<Rightarrow> string \<Rightarrow> nat option option" where
  "parse_port scheme p =
     (if p = [] then Some None
      else if list_all is_digit p \<and> decimal p \<le> 65535 then
        Some (if default_port scheme = Some (decimal p) then None else Some (decimal p))
      else None)"

text \<open>
  The authority: the credentials before the last \<open>@\<close>, if there is one, then the
  host, then the port after a colon.
\<close>

definition split_last_at :: "string \<Rightarrow> string \<times> string" where
  "split_last_at a =
     (if CHR ''@'' \<in> set a then
        (rev (tl (dropWhile (\<lambda>c. c \<noteq> CHR ''@'') (rev a))),
         rev (takeWhile (\<lambda>c. c \<noteq> CHR ''@'') (rev a)))
      else ([], a))"

definition parse_authority :: "string \<Rightarrow> string \<Rightarrow> thrown + url" where
  "parse_authority scheme a =
     (let (cred, hostport) = split_last_at a;
          user = takeWhile (\<lambda>c. c \<noteq> CHR '':'') cred;
          pass = tl (dropWhile (\<lambda>c. c \<noteq> CHR '':'') cred);
          host_text = takeWhile (\<lambda>c. c \<noteq> CHR '':'') hostport;
          port_text = tl (dropWhile (\<lambda>c. c \<noteq> CHR '':'') hostport)
      in case parse_host host_text of
           None \<Rightarrow> Inl invalid_url
         | Some h \<Rightarrow>
             (case parse_port scheme port_text of
                None \<Rightarrow> Inl invalid_url
              | Some p \<Rightarrow>
                  Inr \<lparr>url_scheme = scheme, url_username = user, url_password = pass,
                       url_host = h, url_port = p, url_path = [], url_query = None,
                       url_fragment = None, url_searchParams = []\<rparr>))"

text \<open>
  The path: the pieces between slashes (a backslash counts as a slash in a special
  URL). A double-dot piece removes the last segment, a single-dot piece adds nothing,
  and either leaves an empty segment when it is the last piece; any other piece is
  percent-encoded and appended.
\<close>

definition single_dot :: "string \<Rightarrow> bool" where
  "single_dot s = (toLowerCase s \<in> set [''.'', ''%2e''])"

definition double_dot :: "string \<Rightarrow> bool" where
  "double_dot s = (toLowerCase s \<in> set [''..'', ''.%2e'', ''%2e.'', ''%2e%2e''])"

fun path_segments :: "string list \<Rightarrow> string list \<Rightarrow> string list" where
  "path_segments path [] = path"
| "path_segments path (p # ps) =
     (if double_dot p then
        path_segments (butlast path @ (if ps = [] then [[]] else [])) ps
      else if single_dot p then
        path_segments (path @ (if ps = [] then [[]] else [])) ps
      else path_segments (path @ [encode_with path_set p]) ps)"

definition parse_path :: "string list \<Rightarrow> string \<Rightarrow> string list" where
  "parse_path path text = path_segments path (split_on is_slash text)"

text \<open>
  What follows the authority, or makes up a relative reference: the path up to the
  first \<open>?\<close> or \<open>#\<close>, the query from the \<open>?\<close> up to the first \<open>#\<close>, the fragment
  after the \<open>#\<close>.
\<close>

definition split_tail :: "string \<Rightarrow> string \<times> string option \<times> string option" where
  "split_tail text =
     (let before_hash = takeWhile (\<lambda>c. c \<noteq> CHR ''#'') text;
          hash = dropWhile (\<lambda>c. c \<noteq> CHR ''#'') text;
          p = takeWhile (\<lambda>c. c \<noteq> CHR ''?'') before_hash;
          q = dropWhile (\<lambda>c. c \<noteq> CHR ''?'') before_hash
      in (p, if q = [] then None else Some (tl q), if hash = [] then None else Some (tl hash)))"

definition params_of_query :: "string option \<Rightarrow> (string \<times> string) list" where
  "params_of_query q = (case q of None \<Rightarrow> [] | Some s \<Rightarrow> parse_urlencoded s)"

definition with_tail :: "url \<Rightarrow> string list \<Rightarrow> string \<Rightarrow> url" where
  "with_tail u path text =
     (case split_tail text of
        (p, q, f) \<Rightarrow>
          (let query = map_option (encode_with special_query_set) q
           in u\<lparr>url_path := parse_path path p, url_query := query,
                url_fragment := map_option (encode_with fragment_set) f,
                url_searchParams := params_of_query query\<rparr>))"

definition drop_slash :: "string \<Rightarrow> string" where
  "drop_slash text = (case text of [] \<Rightarrow> [] | c # cs \<Rightarrow> if is_slash c then cs else text)"

text \<open>
  After the scheme of a special URL every leading slash is skipped; the authority
  runs up to the next slash, \<open>?\<close> or \<open>#\<close>; the rest is the path, query and fragment.
\<close>

definition ends_authority :: "char \<Rightarrow> bool" where
  "ends_authority c = (is_slash c \<or> c = CHR ''?'' \<or> c = CHR ''#'')"

definition special_authority :: "string \<Rightarrow> string \<Rightarrow> thrown + url" where
  "special_authority scheme text =
     (let t = dropWhile is_slash text
      in case parse_authority scheme (takeWhile (\<lambda>c. \<not> ends_authority c) t) of
           Inl e \<Rightarrow> Inl e
         | Inr u \<Rightarrow>
             Inr (with_tail u [] (drop_slash (dropWhile (\<lambda>c. \<not> ends_authority c) t))))"

text \<open>
  A reference with no scheme of its own, against a base: the empty reference is the
  base without its fragment; two leading slashes start a new authority; one leading
  slash starts a new path on the base's authority; \<open>?\<close> and \<open>#\<close> keep the base's path;
  anything else replaces the last segment of the base's path.
\<close>

definition relative :: "url \<Rightarrow> string \<Rightarrow> thrown + url" where
  "relative b text =
     (case text of
        [] \<Rightarrow> Inr (b\<lparr>url_fragment := None\<rparr>)
      | c # cs \<Rightarrow>
          if is_slash c then
            (case cs of
               [] \<Rightarrow> Inr (with_tail b [] cs)
             | d # _ \<Rightarrow>
                 if is_slash d then special_authority (url_scheme b) text
                 else Inr (with_tail b [] cs))
          else if c = CHR ''?'' then
            (case split_tail text of
               (p, q, f) \<Rightarrow>
                 (let query = map_option (encode_with special_query_set) q
                  in Inr (b\<lparr>url_query := query,
                            url_fragment := map_option (encode_with fragment_set) f,
                            url_searchParams := params_of_query query\<rparr>)))
          else if c = CHR ''#'' then
            Inr (b\<lparr>url_fragment := Some (encode_with fragment_set cs)\<rparr>)
          else Inr (with_tail b (butlast (url_path b)) text))"

text \<open>The parser, with or without a base.\<close>

definition basic_parse :: "string \<Rightarrow> url option \<Rightarrow> thrown + url" where
  "basic_parse input base =
     (let text = preprocess input
      in case scheme_of text of
           Some (scheme, rest) \<Rightarrow>
             if is_special scheme then
               (case base of
                  Some b \<Rightarrow>
                    if url_scheme b = scheme then relative b rest
                    else special_authority scheme rest
                | None \<Rightarrow> special_authority scheme rest)
             else Inl invalid_url
         | None \<Rightarrow>
             (case base of
                None \<Rightarrow> Inl invalid_url
              | Some b \<Rightarrow> relative b text))"

text \<open>\<open>new URL(input, base)\<close>: the base is parsed first, then the input against it.\<close>

definition URL_new :: "string \<Rightarrow> string \<Rightarrow> thrown + url" where
  "URL_new input base =
     (case basic_parse base None of
        Inl e \<Rightarrow> Inl e
      | Inr b \<Rightarrow> basic_parse input (Some b))"

text \<open>The getters \<open>pathname\<close>, \<open>search\<close> and \<open>href\<close>.\<close>

definition URL_pathname :: "url \<Rightarrow> string" where
  "URL_pathname u = concat (map (\<lambda>s. CHR ''/'' # s) (url_path u))"


fun digits_of :: "nat \<Rightarrow> nat \<Rightarrow> string" where
  "digits_of 0 n = []"
| "digits_of (Suc fuel) n =
     (if n < 10 then [char_of (48 + n)]
      else digits_of fuel (n div 10) @ [char_of (48 + n mod 10)])"

definition String_nat :: "nat \<Rightarrow> string" where
  "String_nat n = digits_of (Suc n) n"

definition URL_href :: "url \<Rightarrow> string" where
  "URL_href u =
     url_scheme u @ ''://'' @
     (if url_username u = [] \<and> url_password u = [] then []
      else url_username u @
           (if url_password u = [] then [] else CHR '':'' # url_password u) @ ''@'') @
     url_host u @
     (case url_port u of None \<Rightarrow> [] | Some p \<Rightarrow> CHR '':'' # String_nat p) @
     URL_pathname u @
     (case url_query u of None \<Rightarrow> [] | Some q \<Rightarrow> CHR ''?'' # q) @
     (case url_fragment u of None \<Rightarrow> [] | Some f \<Rightarrow> CHR ''#'' # f)"

text \<open>
  The setter \<open>url.search = value\<close>: the empty string removes the query; otherwise one
  leading \<open>?\<close> is dropped and the rest becomes the query. The \<open>searchParams\<close> list is
  read again from the new value.
\<close>

definition URL_set_search :: "url \<Rightarrow> string \<Rightarrow> url" where
  "URL_set_search u v =
     (if v = [] then u\<lparr>url_query := None, url_searchParams := []\<rparr>
      else
        (let input = (case v of [] \<Rightarrow> [] | c # cs \<Rightarrow> if c = CHR ''?'' then cs else v)
         in u\<lparr>url_query := Some (encode_with special_query_set (remove_tab_newline input)),
              url_searchParams := parse_urlencoded input\<rparr>))"

text \<open>
  \<open>url.searchParams.append(name, value)\<close>: the pair goes to the end of the list and
  the URL's query becomes the serialised list.
\<close>

definition URL_searchParams_append :: "url \<Rightarrow> string \<Rightarrow> string \<Rightarrow> url" where
  "URL_searchParams_append u name v =
     (let ps = url_searchParams u @ [(name, v)];
          s = serialize_urlencoded ps
      in u\<lparr>url_query := (if s = [] then None else Some s), url_searchParams := ps\<rparr>)"

text \<open>
  The setter \<open>url.port = String(port)\<close> for a port that is a natural number: a
  number above 65535 is ignored, the scheme's default port is stored as no port.
\<close>

definition URL_set_port :: "url \<Rightarrow> nat \<Rightarrow> url" where
  "URL_set_port u p =
     (if p > 65535 then u
      else u\<lparr>url_port := (if default_port (url_scheme u) = Some p then None else Some p)\<rparr>)"

subsection \<open>Headers\<close>

text \<open>
  A \<open>Headers\<close> object is its header list: the pairs in the order they were appended,
  the names as they were given. \<open>new Headers(record)\<close> appends the record's entries in
  order; each value loses its leading and trailing HTTP whitespace, and a name that is
  not a token or a value with a NUL, a line feed or a carriage return in it throws.
\<close>

type_synonym headers = "(string \<times> string) list"

definition is_tchar :: "char \<Rightarrow> bool" where
  "is_tchar c =
     (is_alnum c \<or>
      (of_char c :: nat) \<in> set [0x21, 0x23, 0x24, 0x25, 0x26, 0x27, 0x2A, 0x2B, 0x2D, 0x2E,
                                  0x5E, 0x5F, 0x60, 0x7C, 0x7E])"

definition is_token :: "string \<Rightarrow> bool" where
  "is_token n = (n \<noteq> [] \<and> list_all is_tchar n)"

definition http_whitespace :: "char \<Rightarrow> bool" where
  "http_whitespace c = ((of_char c :: nat) \<in> set [0x09, 0x0A, 0x0D, 0x20])"

definition normalize_value :: "string \<Rightarrow> string" where
  "normalize_value v = rev (dropWhile http_whitespace (rev (dropWhile http_whitespace v)))"

definition is_header_value :: "string \<Rightarrow> bool" where
  "is_header_value v = list_all (\<lambda>c. (of_char c :: nat) \<notin> set [0x00, 0x0A, 0x0D]) v"

fun Headers_fill :: "headers \<Rightarrow> (string \<times> string) list \<Rightarrow> thrown + headers" where
  "Headers_fill hs [] = Inr hs"
| "Headers_fill hs ((n, v) # es) =
     (if is_token n \<and> is_header_value (normalize_value v)
      then Headers_fill (hs @ [(n, normalize_value v)]) es
      else Inl (TypeError ''Invalid header''))"

definition Headers_new :: "(string \<times> string) list \<Rightarrow> thrown + headers" where
  "Headers_new es = Headers_fill [] es"

text \<open>
  \<open>headers.get(name)\<close> matches names without regard to case and joins the values of
  the name with a comma and a space.
\<close>

definition values_of :: "headers \<Rightarrow> string \<Rightarrow> string list" where
  "values_of hs name = map snd (filter (\<lambda>h. toLowerCase (fst h) = toLowerCase name) hs)"

definition Headers_get :: "headers \<Rightarrow> string \<Rightarrow> string option" where
  "Headers_get hs name =
     (if values_of hs name = [] then None else Some (join '', '' (values_of hs name)))"

text \<open>
  \<open>headers.entries()\<close> iterates the list sorted and combined: the names in lower case
  and in order, each once with its joined values, except \<open>set-cookie\<close>, whose values
  come one by one.
\<close>

definition entries_of :: "headers \<Rightarrow> string \<Rightarrow> (string \<times> string) list" where
  "entries_of hs n =
     (if n = ''set-cookie'' then map (\<lambda>v. (n, v)) (values_of hs n)
      else [(n, join '', '' (values_of hs n))])"

definition Headers_entries :: "headers \<Rightarrow> (string \<times> string) list" where
  "Headers_entries hs =
     concat (map (entries_of hs) (sort (remdups (map (\<lambda>h. toLowerCase (fst h)) hs))))"

text \<open>
  \<open>Object.fromEntries\<close> makes an object from the entries in order; a later entry with
  the same key replaces the earlier one. The object is a map from keys to values.
\<close>

definition fromEntries :: "(string \<times> string) list \<Rightarrow> (string \<rightharpoonup> string)" where
  "fromEntries es = foldl (\<lambda>m e. m(fst e \<mapsto> snd e)) Map.empty es"

subsection \<open>Request and Response\<close>

text \<open>
  A request is its URL, method, headers and body; the body is absent or the text it
  carries. \<open>new Request(url, init)\<close> throws when the URL has credentials, when the
  method is not a token or is one of \<open>CONNECT\<close>, \<open>TRACE\<close>, \<open>TRACK\<close>, and when a body
  is given to a \<open>GET\<close> or \<open>HEAD\<close> request. The six standard methods are stored in
  upper case. When the body is a string and the headers hold no \<open>content-type\<close>, under
  any spelling of the name, the constructor appends
  \<open>content-type: text/plain;charset=UTF-8\<close> to the headers.
\<close>

record request =
  req_url :: url
  req_method :: string
  req_headers :: headers
  req_body :: "string option"

record RequestInit =
  init_method :: string
  init_headers :: headers
  init_body :: "string option"

definition forbidden_method :: "string \<Rightarrow> bool" where
  "forbidden_method m = (toUpperCase m \<in> set [''CONNECT'', ''TRACE'', ''TRACK''])"

definition normalize_method :: "string \<Rightarrow> string" where
  "normalize_method m =
     (if toUpperCase m \<in> set [''DELETE'', ''GET'', ''HEAD'', ''OPTIONS'', ''POST'', ''PUT'']
      then toUpperCase m else m)"

definition body_content_type :: "headers \<Rightarrow> string option \<Rightarrow> headers" where
  "body_content_type hs b =
     (if b \<noteq> None \<and> values_of hs ''content-type'' = []
      then [(''content-type'', ''text/plain;charset=UTF-8'')] else [])"

definition Request_new :: "url \<Rightarrow> RequestInit \<Rightarrow> thrown + request" where
  "Request_new u init =
     (if url_username u \<noteq> [] \<or> url_password u \<noteq> [] then
        Inl (TypeError ''Request cannot be constructed from a URL that includes credentials'')
      else if \<not> is_token (init_method init) \<or> forbidden_method (init_method init) then
        Inl (TypeError ''Invalid method'')
      else if init_body init \<noteq> None \<and>
              normalize_method (init_method init) \<in> set [''GET'', ''HEAD''] then
        Inl (TypeError ''Request with GET/HEAD method cannot have body'')
      else
        Inr \<lparr>req_url = u, req_method = normalize_method (init_method init),
             req_headers =
               init_headers init @ body_content_type (init_headers init) (init_body init),
             req_body = init_body init\<rparr>)"

text \<open>
  A response is its status, its headers and its body. The body is absent or the bytes
  it carries, and \<open>bodyUsed\<close> says whether the bytes have been read already.
\<close>

record response =
  res_status :: nat
  res_headers :: headers
  res_body :: "string option"
  res_bodyUsed :: bool

text \<open>
  The UTF-8 decoder of the platform: a well-formed sequence is kept, and every
  ill-formed one (a byte that can start no sequence, or a sequence cut short by a byte
  that cannot continue it or by the end) becomes the replacement character
  \<open>U+FFFD\<close>, whose UTF-8 form is \<open>EF BF BD\<close>. \<open>continuation n lo hi bs\<close> reads up
  to \<open>n\<close> continuation bytes, the first of them between \<open>lo\<close> and \<open>hi\<close>, and says
  whether all were there, which bytes it read, and what is left.
\<close>

definition replacement :: string where
  "replacement = [CHR 0xEF, CHR 0xBF, CHR 0xBD]"

fun continuation :: "nat \<Rightarrow> nat \<Rightarrow> nat \<Rightarrow> string \<Rightarrow> bool \<times> string \<times> string" where
  "continuation 0 lo hi bs = (True, [], bs)"
| "continuation (Suc n) lo hi [] = (False, [], [])"
| "continuation (Suc n) lo hi (b # bs) =
     (if lo \<le> of_char b \<and> of_char b \<le> hi then
        (case continuation n 0x80 0xBF bs of (ok, cs, rest) \<Rightarrow> (ok, b # cs, rest))
      else (False, [], b # bs))"

text \<open>
  The lead byte of a sequence of several bytes: how many continuation bytes follow,
  and the bounds of the first of them.
\<close>

definition lead :: "char \<Rightarrow> (nat \<times> nat \<times> nat) option" where
  "lead b =
     (let n = (of_char b :: nat)
      in if 0xC2 \<le> n \<and> n \<le> 0xDF then Some (1, 0x80, 0xBF)
         else if n = 0xE0 then Some (2, 0xA0, 0xBF)
         else if n = 0xED then Some (2, 0x80, 0x9F)
         else if 0xE1 \<le> n \<and> n \<le> 0xEF then Some (2, 0x80, 0xBF)
         else if n = 0xF0 then Some (3, 0x90, 0xBF)
         else if n = 0xF4 then Some (3, 0x80, 0x8F)
         else if 0xF1 \<le> n \<and> n \<le> 0xF3 then Some (3, 0x80, 0xBF)
         else None)"

lemma continuation_rest:
  "continuation n lo hi bs = (ok, cs, rest) \<Longrightarrow> length rest \<le> length bs"
proof (induction n lo hi bs arbitrary: ok cs rest rule: continuation.induct)
  case (1 lo hi bs)
  then show ?case by simp
next
  case (2 n lo hi)
  then show ?case by simp
next
  case (3 n lo hi b bs)
  show ?case
  proof (cases "lo \<le> of_char b \<and> of_char b \<le> hi")
    case True
    obtain ok' cs' rest' where c: "continuation n 0x80 0xBF bs = (ok', cs', rest')"
      by (cases "continuation n 0x80 0xBF bs") auto
    with True "3.prems" have "rest = rest'" by simp
    moreover from "3.IH" [OF True c] have "length rest' \<le> length bs" .
    ultimately show ?thesis by simp
  next
    case False
    with "3.prems" show ?thesis by auto
  qed
qed

function utf8_decode :: "string \<Rightarrow> string" where
  "utf8_decode [] = []"
| "utf8_decode (b # bs) =
     (if (of_char b :: nat) < 0x80 then b # utf8_decode bs
      else
        (case lead b of
           None \<Rightarrow> replacement @ utf8_decode bs
         | Some (n, lo, hi) \<Rightarrow>
             (case continuation n lo hi bs of
                (ok, cs, rest) \<Rightarrow>
                  (if ok then b # cs else replacement) @ utf8_decode rest)))"
  by pat_completeness auto
termination
  by (relation "measure length") (auto dest!: continuation_rest [OF sym] simp: less_Suc_eq_le)

text \<open>
  \<open>response.text()\<close>: an absent body reads as the empty string; a body that has been
  read already is unusable and the promise rejects with a \<open>TypeError\<close> (the wording of
  its message is the platform's and differs between versions); otherwise the bytes are
  decoded as UTF-8, without a leading byte order mark \<open>EF BB BF\<close>.
\<close>

definition strip_bom :: "string \<Rightarrow> string" where
  "strip_bom bs = (if take 3 bs = [CHR 0xEF, CHR 0xBB, CHR 0xBF] then drop 3 bs else bs)"

definition utf8_text :: "string \<Rightarrow> string" where
  "utf8_text bs = utf8_decode (strip_bom bs)"

definition Response_text :: "response \<Rightarrow> thrown + string" where
  "Response_text r =
     (case res_body r of
        None \<Rightarrow> Inr []
      | Some bs \<Rightarrow>
          if res_bodyUsed r then Inl (TypeError ''Body is unusable'')
          else Inr (utf8_text bs))"

section \<open>The AWS Lambda adapter\<close>

text \<open>
  The event of an HTTP API (\<open>APIGatewayProxyEventV2\<close>) and the structured result the
  handler returns. The \<open>headers\<close> of the event are the entries of its object, in
  order.
\<close>

record http_context =
  http_method :: string
  http_path :: string
  http_protocol :: string
  sourceIp :: string
  userAgent :: string

record request_context =
  accountId :: string
  apiId :: string
  domainName :: string
  domainPrefix :: string
  http :: http_context
  requestId :: string
  ctx_routeKey :: string
  stage :: string
  time :: string
  timeEpoch :: nat

record event =
  version :: string
  routeKey :: string
  rawPath :: string
  rawQueryString :: string
  cookies :: "string list option"
  headers :: "(string \<times> string) list"
  queryStringParameters :: "(string \<times> string) list option"
  requestContext :: request_context
  body :: "string option"
  pathParameters :: "(string \<times> string) list option"
  isBase64Encoded :: bool
  stageVariables :: "(string \<times> string) list option"

record result =
  statusCode :: nat
  result_headers :: "string \<rightharpoonup> string"
  result_body :: string
  result_isBase64Encoded :: bool

text \<open>\<open>toRequest\<close>: the constructors are called in the order of the source.\<close>

definition toRequest :: "event \<Rightarrow> thrown + request" where
  "toRequest event =
     (case URL_new (rawPath event) (''https://'' @ domainName (requestContext event)) of
        Inl e \<Rightarrow> Inl e
      | Inr url0 \<Rightarrow>
          (let url = URL_set_search url0 (rawQueryString event)
           in case Headers_new (headers event) of
                Inl e \<Rightarrow> Inl e
              | Inr hs \<Rightarrow>
                  Request_new url
                    \<lparr>init_method = http_method (http (requestContext event)),
                     init_headers = hs,
                     init_body = body event\<rparr>))"

text \<open>
  \<open>toResult\<close> is an \<open>async\<close> function: its promise rejects (\<open>Inl\<close>) when
  \<open>response.text()\<close> does, and resolves with the result otherwise.
\<close>

definition toResult :: "response \<Rightarrow> thrown + result" where
  "toResult response =
     (let headers = fromEntries (Headers_entries (res_headers response))
      in case Response_text response of
           Inl e \<Rightarrow> Inl e
         | Inr t \<Rightarrow>
             (let body = t
              in Inr \<lparr>statusCode = res_status response, result_headers = headers,
                      result_body = body, result_isBase64Encoded = False\<rparr>))"



subsection \<open>Events with plain fields\<close>










section \<open>The Express adapter\<close>

subsection \<open>Path templates\<close>

text \<open>
  \<open>addRoute\<close> (src/express/index.ts) rewrites the route's path pattern with
  \<^verbatim>\<open>path.replace(/{([^}]+)}/g, ':$1')\<close>.

  A match of the regular expression at the head of a string is an opening brace, the
  longest run of characters other than the closing brace (the run is greedy, and giving
  characters back never helps, since the character after a shorter run is not a closing
  brace), which must not be empty, and a closing brace. \<open>match_placeholder\<close> returns the
  captured group and the text after the match.
\<close>

definition match_placeholder :: "string \<Rightarrow> (string \<times> string) option" where
  "match_placeholder s =
     (case s of
        [] \<Rightarrow> None
      | c # t \<Rightarrow>
          if c = CHR ''{'' then
            (let name = takeWhile (\<lambda>x. x \<noteq> CHR ''}'') t;
                 rest = dropWhile (\<lambda>x. x \<noteq> CHR ''}'') t
             in if name \<noteq> [] \<and> rest \<noteq> [] then Some (name, tl rest) else None)
          else None)"

lemma match_placeholder_shorter:
  "match_placeholder s = Some (name, rest) \<Longrightarrow> length rest < length s"
proof -
  assume m: "match_placeholder s = Some (name, rest)"
  then obtain t where s: "s = CHR ''{'' # t"
    by (cases s) (auto simp: match_placeholder_def split: if_splits)
  from m s have r: "dropWhile (\<lambda>x. x \<noteq> CHR ''}'') t \<noteq> []"
    and e: "rest = tl (dropWhile (\<lambda>x. x \<noteq> CHR ''}'') t)"
    by (auto simp: match_placeholder_def Let_def split: if_splits)
  have "length (dropWhile (\<lambda>x. x \<noteq> CHR ''}'') t) \<le> length t"
    by (rule length_dropWhile_le)
  with r e s show ?thesis by (cases "dropWhile (\<lambda>x. x \<noteq> CHR ''}'') t") auto
qed

text \<open>
  The global replacement scans from the left: where the expression matches, the
  replacement \<open>:$1\<close> is written and the scan goes on after the match; elsewhere the
  character is copied and the scan goes on at the next one.
\<close>

function expressPath :: "string \<Rightarrow> string" where
  "expressPath [] = []"
| "expressPath (c # cs) =
     (case match_placeholder (c # cs) of
        Some (name, rest) \<Rightarrow> CHR '':'' # name @ expressPath rest
      | None \<Rightarrow> c # expressPath cs)"
  by pat_completeness auto
termination
  by (relation "measure length") (auto dest: match_placeholder_shorter)

text \<open>
  The router is the list of its registrations, in the order they were made. A
  registration holds the method name the route was registered under, the path, and
  what the registered closure captured: the endpoint's handler, the error serialiser
  and the port.
\<close>

record ('h, 'e) route =
  route_method :: string
  route_path :: string
  route_handler :: 'h
  route_toErrorResponse :: 'e
  route_port :: "nat option"

record ('h, 'e) AddRouteParams =
  router :: "('h, 'e) route list"
  method' :: string
  pathPattern :: string
  handler :: 'h
  toErrorResponse :: "'e option"
  port :: "nat option"

text \<open>
  \<open>addRoute\<close> returns the router after the registration. The method is one of the
  \<open>HttpMethod\<close> names, for each of which the router has a registration function. The
  error serialiser defaults to \<open>toJsonErrorResponse\<close>, which lives outside the adapter
  and is the first argument here.
\<close>

definition addRoute :: "'e \<Rightarrow> ('h, 'e) AddRouteParams \<Rightarrow> ('h, 'e) route list" where
  "addRoute toJsonErrorResponse params =
     (let path = pathPattern params;
          toErr = (case toErrorResponse params of None \<Rightarrow> toJsonErrorResponse | Some f \<Rightarrow> f);
          expressPath' = expressPath path;
          lowerCaseMethod = toLowerCase (method' params)
      in router params @
         [\<lparr>route_method = lowerCaseMethod, route_path = expressPath',
           route_handler = handler params, route_toErrorResponse = toErr,
           route_port = port params\<rparr>])"

subsection \<open>The URL of an incoming request\<close>

text \<open>
  What the registered closure reads from the Express request to build the URL:
  \<open>req.url\<close> (the request target as Node received it, the path with its query string),
  \<open>req.protocol\<close>, \<open>req.hostname\<close> and \<open>req.query\<close>. The value of \<open>req.query\<close> is what
  the application's query parser made of the query string: with the parsers Express
  ships, an object whose values are strings, arrays or nested objects. A string, \<open>null\<close>
  and the values of another type can only come from a parser of the application's own.
\<close>

datatype qs = QString string | QArray "qs list" | QObject "(string \<times> qs) list"

datatype express_query =
    QueryText string
  | QueryObject "(string \<times> qs) list"
  | QueryNull
  | QueryOther

record express_request =
  x_url :: string
  x_protocol :: string
  x_hostname :: string
  x_query :: express_query
  x_method :: string
  x_headers :: "(string \<times> string) list"

text \<open>
  The \<open>forEach\<close> over \<open>Object.entries(req.query)\<close>: an entry whose value is a string is
  appended to the URL's search parameters, any other entry is passed over.
\<close>

fun append_entries :: "url \<Rightarrow> (string \<times> qs) list \<Rightarrow> url" where
  "append_entries u [] = u"
| "append_entries u ((key, v) # es) =
     append_entries (case v of QString s \<Rightarrow> URL_searchParams_append u key s | _ \<Rightarrow> u) es"

text \<open>
  Lines 43 to 55 of the closure. \<open>typeof null\<close> is \<open>'object'\<close>, and \<open>Object.entries(null)\<close>
  throws.
\<close>

definition requestUrl :: "nat option \<Rightarrow> express_request \<Rightarrow> thrown + url" where
  "requestUrl port' req =
     (case URL_new (x_url req) (x_protocol req @ ''://'' @ x_hostname req) of
        Inl e \<Rightarrow> Inl e
      | Inr url0 \<Rightarrow>
          (let url = (case port' of None \<Rightarrow> url0 | Some p \<Rightarrow> URL_set_port url0 p)
           in case x_query req of
                QueryText s \<Rightarrow> Inr (URL_set_search url s)
              | QueryObject es \<Rightarrow> Inr (append_entries url es)
              | QueryNull \<Rightarrow> Inl (TypeError ''Cannot convert undefined or null to object'')
              | QueryOther \<Rightarrow> Inr url))"

text \<open>The string-valued entries of a query object, in order.\<close>

fun string_entries :: "(string \<times> qs) list \<Rightarrow> (string \<times> string) list" where
  "string_entries [] = []"
| "string_entries ((key, QString s) # es) = (key, s) # string_entries es"
| "string_entries ((key, _) # es) = string_entries es"

subsection \<open>Path templates as the specification describes them\<close>

text \<open>
  The specification's path template is a sequence of literal characters and named
  placeholders; a placeholder is written \<open>{name}\<close> in the template and \<open>:name\<close> for
  Express. A template is well formed when no literal character is an opening brace and
  every name is non-empty and has no closing brace in it.
\<close>

datatype segment = Lit char | Placeholder string

fun braces :: "segment \<Rightarrow> string" where
  "braces (Lit c) = [c]"
| "braces (Placeholder n) = CHR ''{'' # n @ [CHR ''}'']"

fun colon :: "segment \<Rightarrow> string" where
  "colon (Lit c) = [c]"
| "colon (Placeholder n) = CHR '':'' # n"

fun wf_segment :: "segment \<Rightarrow> bool" where
  "wf_segment (Lit c) = (c \<noteq> CHR ''{'')"
| "wf_segment (Placeholder n) = (n \<noteq> [] \<and> CHR ''}'' \<notin> set n)"

definition template_text :: "segment list \<Rightarrow> string" where
  "template_text ts = concat (map braces ts)"

definition express_text :: "segment list \<Rightarrow> string" where
  "express_text ts = concat (map colon ts)"

section \<open>The validator\<close>

text \<open>
  The \<open>Validator\<close> class and \<open>toHttpError\<close> are defined in the package's \<open>index\<close> module,
  which the adapters and the example route import; the definitions of this section
  follow the specification's description of them (its sections 3, 4.1 and 4.2).
\<close>

subsection \<open>Route contract\<close>

text \<open>
  Modelled from the spec: the Route Contract (the \<open>RouteConfig\<close> the \<open>Validator\<close> is
  constructed from). The request body is an optional mapping from content type to
  schema; the responses are a mapping from a status code, or the default marker, to a
  response definition with a description and an optional mapping from content type to
  schema. A mapping is the list of its entries. The type of schemas is a parameter.
\<close>

datatype response_key = StatusCode nat | DefaultResponse

record 's ResponseDefinition =
  rd_description :: string
  rd_content :: "(string \<times> 's) list option"

record 's RouteContract =
  rc_method :: string
  rc_pathTemplate :: string
  rc_paramsSchema :: "'s option"
  rc_querySchema :: "'s option"
  rc_requestBody :: "(string \<times> 's) list option"
  rc_responses :: "(response_key \<times> 's ResponseDefinition) list"

text \<open>
  Modelled from the spec: the Schema Capability, which is given a schema and a value
  and returns the parsed value or the ordered list of issues; and the JSON parser of
  the platform, which returns the value a text spells or fails.
\<close>

type_synonym 's SchemaCapability = "'s \<Rightarrow> json \<Rightarrow> issue list + json"

type_synonym JsonParser = "string \<Rightarrow> json option"

text \<open>
  Modelled from the spec: the content type of a message is its \<open>content-type\<close> header
  with the parameters stripped, that is the text before the first semicolon. The
  JSON family is \<open>application/json\<close> and the \<open>application/\<close> types with the suffix
  \<open>+json\<close>.
\<close>

definition normalize_content_type :: "string \<Rightarrow> string" where
  "normalize_content_type v = takeWhile (\<lambda>c. c \<noteq> CHR '';'') v"

definition content_type :: "headers \<Rightarrow> string option" where
  "content_type hs = map_option normalize_content_type (Headers_get hs ''content-type'')"

definition json_family :: "string \<Rightarrow> bool" where
  "json_family ct =
     (ct = ''application/json'' \<or>
      (take 12 ct = ''application/'' \<and> drop (length ct - 5) ct = ''+json''))"

definition lookup_schema :: "(string \<times> 's) list \<Rightarrow> string option \<Rightarrow> 's option" where
  "lookup_schema content ct = (case ct of None \<Rightarrow> None | Some c \<Rightarrow> map_of content c)"

definition unsupported_media_type :: "string option \<Rightarrow> string list \<Rightarrow> validation_error" where
  "unsupported_media_type received accepted =
     \<lparr>ve_kind = UnsupportedMediaType,
      ve_message = ''Unsupported content type '' @ (case received of None \<Rightarrow> [] | Some c \<Rightarrow> c) @
                   ''; accepted: '' @ join '', '' accepted,
      ve_issues = None\<rparr>"

definition internal :: "string \<Rightarrow> issue list option \<Rightarrow> validation_error" where
  "internal msg issues = \<lparr>ve_kind = Internal, ve_message = msg, ve_issues = issues\<rparr>"

subsection \<open>validateBody\<close>

text \<open>
  Modelled from the spec: \<open>validateBody\<close>, section 4.1, steps 1 to 5. The result is the
  raw body, passed through, or the value the schema parsed. A body that is not JSON
  raises \<open>UnsupportedMediaType\<close>, the first of the two kinds the specification allows
  for it.
\<close>

datatype parsed_body = RawBody "string option" | ParsedBody json

definition validateBody ::
  "'s SchemaCapability \<Rightarrow> JsonParser \<Rightarrow> 's RouteContract \<Rightarrow> request \<Rightarrow>
     validation_error + parsed_body" where
  "validateBody validate parseJson contract request =
     (case rc_requestBody contract of
        None \<Rightarrow> Inr (RawBody (req_body request))
      | Some content \<Rightarrow>
          if content = [] then Inr (RawBody (req_body request))
          else
            (let ct = content_type (req_headers request)
             in case lookup_schema content ct of
                  None \<Rightarrow> Inl (unsupported_media_type ct (map fst content))
                | Some schema \<Rightarrow>
                    if json_family (case ct of None \<Rightarrow> [] | Some c \<Rightarrow> c) then
                      (case parseJson (case req_body request of None \<Rightarrow> [] | Some b \<Rightarrow> b) of
                         None \<Rightarrow>
                           Inl \<lparr>ve_kind = UnsupportedMediaType,
                                ve_message = ''Request body is not valid JSON'',
                                ve_issues = None\<rparr>
                       | Some v \<Rightarrow>
                           (case validate schema v of
                              Inl issues \<Rightarrow>
                                Inl \<lparr>ve_kind = UnprocessableEntity,
                                     ve_message = ''Invalid request body'',
                                     ve_issues = Some issues\<rparr>
                            | Inr parsed \<Rightarrow> Inr (ParsedBody parsed)))
                    else Inr (RawBody (req_body request))))"

subsection \<open>validateResponse\<close>

text \<open>
  Modelled from the spec: the body of a response as \<open>validateResponse\<close> buffers it, the
  bytes the response carries (none when the body is absent).
\<close>

definition body_bytes :: "response \<Rightarrow> string" where
  "body_bytes r = (case res_body r of None \<Rightarrow> [] | Some s \<Rightarrow> s)"

text \<open>
  Modelled from the spec: \<open>validateResponse\<close>, section 4.1, steps 1 to 5. The response
  definition is looked up under the response's status code. On success the response
  returned is a new one, not yet read, with the original status and headers and the
  buffered body.
\<close>

definition validateResponse ::
  "'s SchemaCapability \<Rightarrow> JsonParser \<Rightarrow> 's RouteContract \<Rightarrow> response \<Rightarrow>
     validation_error + response" where
  "validateResponse validate parseJson contract response =
     (case map_of (rc_responses contract) (StatusCode (res_status response)) of
        None \<Rightarrow> Inl (internal ''Undeclared response status'' None)
      | Some definition' \<Rightarrow>
          (case rd_content definition' of
             None \<Rightarrow> Inr response
           | Some content \<Rightarrow>
               if content = [] then Inr response
               else
                 (case lookup_schema content (content_type (res_headers response)) of
                    None \<Rightarrow> Inl (internal ''Undeclared response content type'' None)
                  | Some schema \<Rightarrow>
                      (let text' = body_bytes response
                       in case parseJson text' of
                            None \<Rightarrow> Inl (internal ''Response body is not valid JSON'' None)
                          | Some v \<Rightarrow>
                              (case validate schema v of
                                 Inl issues \<Rightarrow>
                                   Inl (internal ''Invalid response body'' (Some issues))
                               | Inr _ \<Rightarrow>
                                   Inr \<lparr>res_status = res_status response,
                                        res_headers = res_headers response,
                                        res_body = Some text', res_bodyUsed = False\<rparr>)))))"

subsection \<open>toHttpError\<close>



section \<open>Examples\<close>

text \<open>
  The example route of the repository is \<open>POST /things/{thingId}\<close> with a JSON body.
  \<open>thing_event\<close> is a gateway event for it; its body is base64 text and the event says
  so.
\<close>

definition thing_event :: event where
  "thing_event =
     \<lparr>version = ''2.0'', routeKey = ''POST /things/{thingId}'', rawPath = ''/things/1'',
      rawQueryString = ''tag=a&tag=b'', cookies = Some [''session=1''],
      headers = [(''content-type'', ''application/json''), (''host'', ''api.example.com'')],
      queryStringParameters = Some [(''tag'', ''a,b'')],
      requestContext =
        \<lparr>accountId = ''123456789012'', apiId = ''api'', domainName = ''api.example.com'',
         domainPrefix = ''api'',
         http = \<lparr>http_method = ''POST'', http_path = ''/things/1'',
                 http_protocol = ''HTTP/1.1'', sourceIp = ''192.0.2.1'',
                 userAgent = ''curl''\<rparr>,
         requestId = ''id'', ctx_routeKey = ''POST /things/{thingId}'', stage = ''$default'',
         time = ''03/Nov/2026:00:00:00 +0000'', timeEpoch = 0\<rparr>,
      body = Some ''eyJuYW1lIjoibXl0aGluZyJ9'', pathParameters = Some [(''thingId'', ''1'')],
      isBase64Encoded = True, stageVariables = None\<rparr>"





text \<open>
  An Express request for \<open>/things/1?tag=a&tag=b&page=2\<close>: the query parser has made an
  array of the repeated key.
\<close>

definition thing_request :: express_request where
  "thing_request =
     \<lparr>x_url = ''/things/1?tag=a&tag=b&page=2'', x_protocol = ''http'',
      x_hostname = ''localhost'',
      x_query = QueryObject [(''tag'', QArray [QString ''a'', QString ''b'']),
                             (''page'', QString ''2'')],
      x_method = ''POST'', x_headers = [(''content-type'', ''application/json'')]\<rparr>"

text \<open>
  A small schema capability and JSON parser for the examples: two schemas, of which
  one accepts numbers only, and a parser that knows \<open>null\<close>, \<open>true\<close>, \<open>false\<close> and
  the natural numbers.
\<close>

datatype example_schema = NumberSchema | AnySchema

definition example_validate :: "example_schema SchemaCapability" where
  "example_validate s v =
     (case s of
        AnySchema \<Rightarrow> Inr v
      | NumberSchema \<Rightarrow>
          (case v of
             JNumber n \<Rightarrow> Inr v
           | _ \<Rightarrow> Inl [\<lparr>issue_path = [], issue_message = ''Expected number''\<rparr>]))"

definition example_parse :: JsonParser where
  "example_parse t =
     (if t = ''null'' then Some JNull
      else if t = ''true'' then Some (JBool True)
      else if t = ''false'' then Some (JBool False)
      else if t \<noteq> [] \<and> list_all is_digit t then Some (JNumber (int (decimal t)))
      else None)"


definition number_contract :: "example_schema RouteContract" where
  "number_contract =
     \<lparr>rc_method = ''post'', rc_pathTemplate = ''/things/{thingId}'',
      rc_paramsSchema = None, rc_querySchema = None,
      rc_requestBody = Some [(''application/json'', NumberSchema)],
      rc_responses =
        [(StatusCode 200,
          \<lparr>rd_description = ''Create a thing'',
           rd_content = Some [(''application/json'', NumberSchema)]\<rparr>),
         (StatusCode 404, \<lparr>rd_description = ''Not found'', rd_content = None\<rparr>)]\<rparr>"

definition json_request :: "string \<Rightarrow> string \<Rightarrow> request" where
  "json_request ct b =
     \<lparr>req_url = \<lparr>url_scheme = ''http'', url_username = [], url_password = [],
                  url_host = ''host.com'', url_port = None, url_path = [''things'', ''1''],
                  url_query = None, url_fragment = None, url_searchParams = []\<rparr>,
      req_method = ''POST'', req_headers = [(''content-type'', ct)], req_body = Some b\<rparr>"

definition json_response :: "nat \<Rightarrow> string \<Rightarrow> response" where
  "json_response st b =
     \<lparr>res_status = st, res_headers = [(''Content-Type'', ''application/json; charset=utf-8'')],
      res_body = Some b, res_bodyUsed = False\<rparr>"

text \<open>
  A response with two \<open>Set-Cookie\<close> headers, whose body starts with a byte order mark;
  and a response whose body has been read already.
\<close>

definition cookie_response :: response where
  "cookie_response =
     \<lparr>res_status = 200,
      res_headers = [(''Set-Cookie'', ''a=1''), (''Content-Type'', ''text/plain''),
                     (''Set-Cookie'', ''b=2'')],
      res_body = Some ([CHR 0xEF, CHR 0xBB, CHR 0xBF] @ ''ok''), res_bodyUsed = False\<rparr>"

definition used_response :: response where
  "used_response = (json_response 200 ''12'')\<lparr>res_bodyUsed := True\<rparr>"

text \<open>The registration of a route with two placeholders, and its template.\<close>

definition thing_params :: "(unit, unit) AddRouteParams" where
  "thing_params =
     \<lparr>router = [], method' = ''POST'', pathPattern = ''/things/{thingId}/parts/{partId}'',
      handler = (), toErrorResponse = None, port = None\<rparr>"

definition thing_template :: "segment list" where
  "thing_template =
     map Lit ''/things/'' @ [Placeholder ''thingId''] @ map Lit ''/parts/'' @
     [Placeholder ''partId'']"

section \<open>Properties of the platform model\<close>

subsection \<open>Every parsed URL has a special scheme and a host\<close>










subsection \<open>A reference that starts with a slash keeps the scheme of an https base\<close>














lemma Request_new_fields:
  "Request_new u init = Inr rq \<Longrightarrow>
     req_url rq = u \<and> req_method rq = normalize_method (init_method init) \<and>
     req_headers rq
       = init_headers init @ body_content_type (init_headers init) (init_body init) \<and>
     req_body rq = init_body init"
  by (auto simp: Request_new_def split: if_splits)




subsection \<open>Objects made from entries\<close>

lemma foldl_entries:
  "foldl (\<lambda>m e. m(fst e \<mapsto> snd e)) m es = m ++ map_of (rev es)"
  by (induction es arbitrary: m) (auto simp: map_add_upd)

lemma fromEntries_map_of: "fromEntries es = map_of (rev es)"
  by (simp add: fromEntries_def foldl_entries)

lemma fromEntries_SomeD: "fromEntries es k = Some v \<Longrightarrow> (k, v) \<in> set es"
  using map_of_SomeD [of "rev es" k v] by (simp add: fromEntries_map_of)

lemma fromEntries_only_value:
  assumes "(k, v) \<in> set es" and "\<And>w. (k, w) \<in> set es \<Longrightarrow> w = v"
  shows "fromEntries es k = Some v"
proof (cases "fromEntries es k")
  case None
  then have "k \<notin> fst ` set (rev es)"
    by (simp add: fromEntries_map_of map_of_eq_None_iff)
  with assms(1) show ?thesis by force
next
  case (Some w)
  from fromEntries_SomeD [OF this] assms(2) Some show ?thesis by simp
qed

lemma Headers_entries_value:
  assumes "(k, v) \<in> set (Headers_entries hs)" and "k \<noteq> ''set-cookie''"
  shows "v = join '', '' (values_of hs k)"
proof -
  from assms(1) obtain n where n: "(k, v) \<in> set (entries_of hs n)"
    unfolding Headers_entries_def set_concat by auto
  show ?thesis
  proof (cases "n = ''set-cookie''")
    case True
    with n have "k = ''set-cookie''" unfolding entries_of_def by auto
    with assms(2) show ?thesis by simp
  next
    case False
    with n show ?thesis unfolding entries_of_def by simp
  qed
qed

text \<open>
  The entries of one key in the iteration are those of that name, and the object keeps
  the last of them.
\<close>

lemma filter_concat_key:
  assumes "distinct ns" and "\<And>n e. e \<in> set (f n) \<Longrightarrow> fst e = n"
  shows "filter (\<lambda>e. fst e = k) (concat (map f ns)) = (if k \<in> set ns then f k else [])"
  using assms(1)
proof (induction ns)
  case Nil
  show ?case by simp
next
  case (Cons n ns)
  have same: "filter (\<lambda>e. fst e = k) (f k) = f k"
    using assms(2) [of _ k] by (simp add: filter_id_conv)
  have other: "n \<noteq> k \<Longrightarrow> filter (\<lambda>e. fst e = k) (f n) = []"
    using assms(2) [of _ n] by (auto simp: filter_empty_conv)
  from Cons show ?case
    by (cases "n = k") (auto simp: same other)
qed

lemma entries_of_key: "e \<in> set (entries_of hs n) \<Longrightarrow> fst e = n"
  by (auto simp: entries_of_def split: if_splits)

lemma Headers_entries_key:
  "filter (\<lambda>e. fst e = k) (Headers_entries hs)
     = (if k \<in> set (map (\<lambda>h. toLowerCase (fst h)) hs) then entries_of hs k else [])"
proof -
  have "distinct (sort (remdups (map (\<lambda>h. toLowerCase (fst h)) hs)))"
    by simp
  from filter_concat_key [where f = "entries_of hs" and k = k, OF this entries_of_key]
  show ?thesis by (simp add: Headers_entries_def)
qed

lemma fromEntries_filter:
  "fromEntries es k = fromEntries (filter (\<lambda>e. fst e = k) es) k"
  by (induction es rule: rev_induct) (auto simp: fromEntries_map_of)

lemma fromEntries_last:
  assumes "es \<noteq> []" and "\<forall>e\<in>set es. fst e = k"
  shows "fromEntries es k = Some (snd (last es))"
proof -
  from assms(1) obtain xs x where es: "es = xs @ [x]"
    by (cases es rule: rev_cases) auto
  with assms(2) have "fst x = k" by simp
  with es show ?thesis by (simp add: fromEntries_map_of)
qed

lemma set_cookie_lower: "toLowerCase ''set-cookie'' = ''set-cookie''"
  by code_simp

lemma fromEntries_set_cookie:
  assumes "values_of hs ''set-cookie'' \<noteq> []"
  shows "fromEntries (Headers_entries hs) ''set-cookie''
           = Some (last (values_of hs ''set-cookie''))"
proof -
  let ?k = "''set-cookie''"
  from assms obtain h where "h \<in> set hs" and "toLowerCase (fst h) = ?k"
    by (auto simp: values_of_def set_cookie_lower filter_empty_conv)
  then have "?k \<in> set (map (\<lambda>h. toLowerCase (fst h)) hs)" by force
  then have f: "filter (\<lambda>e. fst e = ?k) (Headers_entries hs) = entries_of hs ?k"
    by (simp only: Headers_entries_key if_True)
  have e: "entries_of hs ?k = map (\<lambda>v. (?k, v)) (values_of hs ?k)"
    by (simp add: entries_of_def)
  have "fromEntries (Headers_entries hs) ?k = fromEntries (entries_of hs ?k) ?k"
    using fromEntries_filter [of "Headers_entries hs" ?k] by (simp only: f)
  also have "\<dots> = Some (snd (last (entries_of hs ?k)))"
    using assms by (intro fromEntries_last) (auto simp: e)
  also have "\<dots> = Some (last (values_of hs ?k))"
    using assms by (simp add: e last_map)
  finally show ?thesis .
qed

subsection \<open>Reading the body of a response\<close>

lemma Response_text_used:
  "res_body r \<noteq> None \<Longrightarrow> res_bodyUsed r \<Longrightarrow>
     Response_text r = Inl (TypeError ''Body is unusable'')"
  by (auto simp: Response_text_def)

lemma Response_text_unused:
  "res_body r = None \<or> \<not> res_bodyUsed r \<Longrightarrow>
     Response_text r = Inr (case res_body r of None \<Rightarrow> [] | Some bs \<Rightarrow> utf8_text bs)"
  by (auto simp: Response_text_def split: option.splits)

lemma toResult_used:
  "res_body r \<noteq> None \<Longrightarrow> res_bodyUsed r \<Longrightarrow>
     toResult r = Inl (TypeError ''Body is unusable'')"
  by (simp add: toResult_def Let_def Response_text_used)

lemma toResult_unused:
  "res_body r = None \<or> \<not> res_bodyUsed r \<Longrightarrow>
     toResult r =
       Inr \<lparr>statusCode = res_status r,
            result_headers = fromEntries (Headers_entries (res_headers r)),
            result_body = (case res_body r of None \<Rightarrow> [] | Some bs \<Rightarrow> utf8_text bs),
            result_isBase64Encoded = False\<rparr>"
  by (simp add: toResult_def Let_def Response_text_unused)

subsection \<open>What the constructors throw\<close>









subsection \<open>The URL of an event with plain fields\<close>


































section \<open>The validator's errors\<close>

text \<open>
  Claim C1. A response whose status code is not declared in the contract's responses
  table makes \<open>validateResponse\<close> raise an error of kind \<open>Internal\<close> with status 500,
  which is no 4xx status, whatever the content type and the body of the response are.
\<close>

theorem validateResponse_undeclared_status:
  assumes "StatusCode (res_status response) \<notin> fst ` set (rc_responses contract)"
  shows "\<exists>e. validateResponse validate parseJson contract response = Inl e \<and>
             ve_kind e = Internal \<and> ve_status e = 500 \<and>
             \<not> (400 \<le> ve_status e \<and> ve_status e < 500)"
proof -
  from assms have "map_of (rc_responses contract) (StatusCode (res_status response)) = None"
    by (simp add: map_of_eq_None_iff)
  then have "validateResponse validate parseJson contract response
               = Inl (internal ''Undeclared response status'' None)"
    by (simp add: validateResponse_def)
  then show ?thesis
    by (simp add: internal_def ve_status_def)
qed

theorem validateResponse_undeclared_status_witness:
  "validateResponse example_validate example_parse number_contract (json_response 201 ''12'')
     = Inl \<lparr>ve_kind = Internal, ve_message = ''Undeclared response status'', ve_issues = None\<rparr> \<and>
   validateResponse example_validate example_parse number_contract
       \<lparr>res_status = 201, res_headers = [(''content-type'', ''text/plain'')],
        res_body = None, res_bodyUsed = False\<rparr>
     = Inl \<lparr>ve_kind = Internal, ve_message = ''Undeclared response status'', ve_issues = None\<rparr>"
proof -
  have a: "StatusCode (res_status (json_response 201 ''12''))
             \<notin> fst ` set (rc_responses number_contract)"
    by (simp add: json_response_def number_contract_def)
  have b: "StatusCode (res_status
             \<lparr>res_status = 201, res_headers = [(''content-type'', ''text/plain'')],
              res_body = None, res_bodyUsed = False\<rparr>)
             \<notin> fst ` set (rc_responses number_contract)"
    by (simp add: number_contract_def)
  from validateResponse_undeclared_status [OF a, of example_validate example_parse]
  obtain e where e: "validateResponse example_validate example_parse number_contract
                        (json_response 201 ''12'') = Inl e" "ve_kind e = Internal"
    by blast
  have c: "validateResponse example_validate example_parse number_contract
             (json_response 201 ''12'')
           = Inl \<lparr>ve_kind = Internal, ve_message = ''Undeclared response status'',
                  ve_issues = None\<rparr>"
    by code_simp
  have d: "validateResponse example_validate example_parse number_contract
             \<lparr>res_status = 201, res_headers = [(''content-type'', ''text/plain'')],
              res_body = None, res_bodyUsed = False\<rparr>
           = Inl \<lparr>ve_kind = Internal, ve_message = ''Undeclared response status'',
                  ve_issues = None\<rparr>"
    by code_simp
  from e c d show ?thesis by simp
qed

text \<open>
  Claim C2. When the contract declares at least one body schema and the normalised
  content type of the request matches none of the declared content types,
  \<open>validateBody\<close> raises an error of kind \<open>UnsupportedMediaType\<close> with status 415, and
  the same error for every body the request may carry.
\<close>

theorem validateBody_unsupported_media_type:
  assumes "rc_requestBody contract = Some content" and "content \<noteq> []"
    and "\<forall>c. content_type (req_headers request) = Some c \<longrightarrow> c \<notin> fst ` set content"
  shows "\<exists>e. ve_kind e = UnsupportedMediaType \<and> ve_status e = 415 \<and>
             (\<forall>b. validateBody validate parseJson contract (request\<lparr>req_body := b\<rparr>) = Inl e)"
proof -
  have "lookup_schema content (content_type (req_headers request)) = None"
    using assms(3)
    by (cases "content_type (req_headers request)")
       (simp_all add: lookup_schema_def map_of_eq_None_iff)
  with assms(1,2) have
    "\<forall>b. validateBody validate parseJson contract (request\<lparr>req_body := b\<rparr>)
           = Inl (unsupported_media_type (content_type (req_headers request)) (map fst content))"
    by (simp add: validateBody_def Let_def)
  then show ?thesis
    by (intro exI [of _ "unsupported_media_type (content_type (req_headers request))
                           (map fst content)"])
       (simp add: unsupported_media_type_def ve_status_def)
qed

lemma text_plain_content_type:
  "content_type (req_headers (json_request ''text/plain'' b)) = Some ''text/plain''"
  unfolding json_request_def by code_simp

theorem validateBody_unsupported_media_type_witness:
  "\<exists>e. ve_kind e = UnsupportedMediaType \<and> ve_status e = 415 \<and>
        validateBody example_validate example_parse number_contract
          (json_request ''text/plain'' ''12'') = Inl e \<and>
        validateBody example_validate example_parse number_contract
          (json_request ''text/plain'' ''not json'') = Inl e"
proof -
  have a: "rc_requestBody number_contract = Some [(''application/json'', NumberSchema)]"
    by (simp add: number_contract_def)
  have c: "\<forall>c. content_type (req_headers (json_request ''text/plain'' ''12'')) = Some c \<longrightarrow>
             c \<notin> fst ` set [(''application/json'', NumberSchema)]"
    by (simp add: text_plain_content_type)
  from validateBody_unsupported_media_type [OF a _ c, of example_validate example_parse]
  obtain e where e: "ve_kind e = UnsupportedMediaType" "ve_status e = 415"
    "\<forall>b. validateBody example_validate example_parse number_contract
           ((json_request ''text/plain'' ''12'')\<lparr>req_body := b\<rparr>) = Inl e"
    by auto
  from e(3) have "validateBody example_validate example_parse number_contract
                    ((json_request ''text/plain'' ''12'')\<lparr>req_body := Some ''12''\<rparr>) = Inl e"
    by blast
  moreover from e(3) have "validateBody example_validate example_parse number_contract
                    ((json_request ''text/plain'' ''12'')\<lparr>req_body := Some ''not json''\<rparr>) = Inl e"
    by blast
  ultimately show ?thesis
    using e(1,2) by (auto simp: json_request_def)
qed





text \<open>
  Claim C4. When \<open>validateResponse\<close> succeeds on a response, it succeeds again on the
  response it returned and returns that response, which has the status, the headers
  and the body of the original.
\<close>

theorem validateResponse_idempotent:
  assumes "validateResponse validate parseJson contract response = Inr response'"
  shows "validateResponse validate parseJson contract response' = Inr response' \<and>
         res_status response' = res_status response \<and>
         res_headers response' = res_headers response \<and>
         body_bytes response' = body_bytes response"
proof (cases "map_of (rc_responses contract) (StatusCode (res_status response))")
  case None
  with assms show ?thesis by (simp add: validateResponse_def)
next
  case (Some d)
  show ?thesis
  proof (cases "rd_content d = None \<or> rd_content d = Some []")
    case True
    with Some assms have "response' = response"
      by (auto simp: validateResponse_def)
    with assms show ?thesis by simp
  next
    case False
    then obtain content where c: "rd_content d = Some content" "content \<noteq> []"
      by (cases "rd_content d") auto
    with Some assms obtain schema v where
      s: "lookup_schema content (content_type (res_headers response)) = Some schema" and
      p: "parseJson (body_bytes response) = Some v" and
      ok: "\<exists>w. validate schema v = Inr w" and
      r: "response' = \<lparr>res_status = res_status response, res_headers = res_headers response,
                        res_body = Some (body_bytes response), res_bodyUsed = False\<rparr>"
      by (auto simp: validateResponse_def Let_def split: option.splits sum.splits)
    have t: "body_bytes response' = body_bytes response"
      by (simp add: r body_bytes_def)
    from ok obtain w where w: "validate schema v = Inr w" by blast
    have "validateResponse validate parseJson contract response' = Inr response'"
      using Some c s p w t by (simp add: validateResponse_def Let_def r)
    with t r show ?thesis by simp
  qed
qed

theorem validateResponse_idempotent_witness:
  "validateResponse example_validate example_parse number_contract (json_response 200 ''12'')
     = Inr (json_response 200 ''12'') \<and>
   validateResponse example_validate example_parse number_contract
     \<lparr>res_status = 404, res_headers = [], res_body = None, res_bodyUsed = False\<rparr>
     = Inr \<lparr>res_status = 404, res_headers = [], res_body = None, res_bodyUsed = False\<rparr>"
proof -
  have a: "validateResponse example_validate example_parse number_contract
             (json_response 200 ''12'') = Inr (json_response 200 ''12'')"
    unfolding json_response_def by code_simp
  have b: "validateResponse example_validate example_parse number_contract
             \<lparr>res_status = 404, res_headers = [], res_body = None, res_bodyUsed = False\<rparr>
           = Inr \<lparr>res_status = 404, res_headers = [], res_body = None, res_bodyUsed = False\<rparr>"
    by code_simp
  from validateResponse_idempotent [OF a] validateResponse_idempotent [OF b]
  show ?thesis by simp
qed

section \<open>The Lambda adapter's properties\<close>

text \<open>The request of the example event, used in the examples below.\<close>

lemma thing_event_request:
  "toRequest thing_event =
     Inr \<lparr>req_url = \<lparr>url_scheme = ''https'', url_username = [], url_password = [],
                     url_host = ''api.example.com'', url_port = None,
                     url_path = [''things'', ''1''], url_query = Some ''tag=a&tag=b'',
                     url_fragment = None,
                     url_searchParams = [(''tag'', ''a''), (''tag'', ''b'')]\<rparr>,
          req_method = ''POST'',
          req_headers = [(''content-type'', ''application/json''),
                         (''host'', ''api.example.com'')],
          req_body = Some ''eyJuYW1lIjoibXl0aGluZyJ9''\<rparr>"
  by code_simp

text \<open>
  Claim C5, as the specification states it, says that \<open>toResult\<close> returns a result for
  every response, with the response's header entries as its headers. It returns none
  for a response whose body has been read already: \<open>response.text()\<close> rejects, and
  the promise of \<open>toResult\<close> with it. And the response below has two \<open>set-cookie\<close>
  entries, of which the headers of the result, an object with one value for a key, hold
  the second only.
\<close>

theorem toResult_rejects_or_drops:
  "res_bodyUsed used_response \<and> isl (toResult used_response) \<and>
   Headers_entries (res_headers cookie_response)
     = [(''content-type'', ''text/plain''), (''set-cookie'', ''a=1''),
        (''set-cookie'', ''b=2'')] \<and>
   \<not> isl (toResult cookie_response) \<and>
   result_headers (projr (toResult cookie_response)) ''set-cookie'' = Some ''b=2''"
proof -
  have "res_bodyUsed used_response"
    by (simp add: used_response_def)
  moreover have "isl (toResult used_response)"
    by code_simp
  moreover have "Headers_entries (res_headers cookie_response)
     = [(''content-type'', ''text/plain''), (''set-cookie'', ''a=1''),
        (''set-cookie'', ''b=2'')]"
    by code_simp
  moreover have "\<not> isl (toResult cookie_response)"
    by code_simp
  moreover have
    "result_headers (projr (toResult cookie_response)) ''set-cookie'' = Some ''b=2''"
    by code_simp
  ultimately show ?thesis by (intro conjI)
qed

text \<open>
  Claim C5, amended. For every response whose body is absent or has not been read yet,
  \<open>toResult\<close> returns a result whose \<open>statusCode\<close> is the response's status, whose
  body is the text of the response's body (its bytes decoded as UTF-8, without a
  leading byte order mark), whose \<open>isBase64Encoded\<close> is false, and whose headers are
  the object made from the entries of the response's headers: every pair of the object
  is an entry, every entry other than a \<open>set-cookie\<close> entry is a pair of the object,
  and of the \<open>set-cookie\<close> entries, one for each such header, the object holds the
  last. For a response whose body has been read already, \<open>toResult\<close> rejects with a
  \<open>TypeError\<close> and returns no result.
\<close>

theorem toResult_fields:
  "(res_body response \<noteq> None \<and> res_bodyUsed response \<longrightarrow>
      (\<exists>msg. toResult response = Inl (TypeError msg))) \<and>
   (res_body response = None \<or> \<not> res_bodyUsed response \<longrightarrow>
      (\<exists>r. toResult response = Inr r \<and>
         statusCode r = res_status response \<and>
         result_body r = (case res_body response of None \<Rightarrow> [] | Some bs \<Rightarrow> utf8_text bs) \<and>
         result_isBase64Encoded r = False \<and>
         result_headers r = fromEntries (Headers_entries (res_headers response)) \<and>
         (\<forall>k v. result_headers r k = Some v \<longrightarrow>
            (k, v) \<in> set (Headers_entries (res_headers response))) \<and>
         (\<forall>k v. (k, v) \<in> set (Headers_entries (res_headers response)) \<and> k \<noteq> ''set-cookie'' \<longrightarrow>
            result_headers r k = Some v) \<and>
         (values_of (res_headers response) ''set-cookie'' \<noteq> [] \<longrightarrow>
            result_headers r ''set-cookie''
              = Some (last (values_of (res_headers response) ''set-cookie'')))))"
proof (intro conjI impI)
  assume "res_body response \<noteq> None \<and> res_bodyUsed response"
  then have "toResult response = Inl (TypeError ''Body is unusable'')"
    by (simp add: toResult_used)
  then show "\<exists>msg. toResult response = Inl (TypeError msg)" by blast
next
  let ?es = "Headers_entries (res_headers response)"
  let ?r = "\<lparr>statusCode = res_status response, result_headers = fromEntries ?es,
             result_body = (case res_body response of None \<Rightarrow> [] | Some bs \<Rightarrow> utf8_text bs),
             result_isBase64Encoded = False\<rparr>"
  assume "res_body response = None \<or> \<not> res_bodyUsed response"
  then have r: "toResult response = Inr ?r" by (rule toResult_unused)
  have h: "result_headers ?r = fromEntries ?es"
    and s: "statusCode ?r = res_status response"
    and t: "result_body ?r = (case res_body response of None \<Rightarrow> [] | Some bs \<Rightarrow> utf8_text bs)"
    and f: "result_isBase64Encoded ?r = False"
    by simp_all
  have a: "\<forall>k v. result_headers ?r k = Some v \<longrightarrow> (k, v) \<in> set ?es"
    unfolding h by (auto dest: fromEntries_SomeD)
  have b: "\<forall>k v. (k, v) \<in> set ?es \<and> k \<noteq> ''set-cookie'' \<longrightarrow> result_headers ?r k = Some v"
    unfolding h
  proof (intro allI impI)
    fix k v
    assume kv: "(k, v) \<in> set ?es \<and> k \<noteq> ''set-cookie''"
    then have "\<And>w. (k, w) \<in> set ?es \<Longrightarrow> w = v"
      using Headers_entries_value [of k _ "res_headers response"] by metis
    with kv show "fromEntries ?es k = Some v"
      by (intro fromEntries_only_value) auto
  qed
  have c: "values_of (res_headers response) ''set-cookie'' \<noteq> [] \<longrightarrow>
             result_headers ?r ''set-cookie''
               = Some (last (values_of (res_headers response) ''set-cookie''))"
    unfolding h by (auto dest: fromEntries_set_cookie)
  from r s t f h a b c
  show "\<exists>r. toResult response = Inr r \<and>
         statusCode r = res_status response \<and>
         result_body r = (case res_body response of None \<Rightarrow> [] | Some bs \<Rightarrow> utf8_text bs) \<and>
         result_isBase64Encoded r = False \<and>
         result_headers r = fromEntries (Headers_entries (res_headers response)) \<and>
         (\<forall>k v. result_headers r k = Some v \<longrightarrow>
            (k, v) \<in> set (Headers_entries (res_headers response))) \<and>
         (\<forall>k v. (k, v) \<in> set (Headers_entries (res_headers response)) \<and> k \<noteq> ''set-cookie'' \<longrightarrow>
            result_headers r k = Some v) \<and>
         (values_of (res_headers response) ''set-cookie'' \<noteq> [] \<longrightarrow>
            result_headers r ''set-cookie''
              = Some (last (values_of (res_headers response) ''set-cookie'')))"
    by (intro exI [of _ ?r] conjI)
qed

theorem toResult_fields_witness:
  "(\<exists>msg. toResult used_response = Inl (TypeError msg)) \<and>
   (\<exists>r. toResult cookie_response = Inr r \<and> statusCode r = 200 \<and> result_body r = ''ok'' \<and>
        result_isBase64Encoded r = False \<and>
        result_headers r ''content-type'' = Some ''text/plain'' \<and>
        result_headers r ''set-cookie'' = Some ''b=2'' \<and>
        result_headers r ''x-other'' = None)"
proof -
  let ?hs = "res_headers cookie_response"
  have u: "res_body used_response \<noteq> None \<and> res_bodyUsed used_response"
    by (simp add: used_response_def json_response_def)
  have n: "res_body cookie_response = None \<or> \<not> res_bodyUsed cookie_response"
    by (simp add: cookie_response_def)
  have e: "Headers_entries ?hs
             = [(''content-type'', ''text/plain''), (''set-cookie'', ''a=1''),
                (''set-cookie'', ''b=2'')]"
    by code_simp
  have v: "values_of ?hs ''set-cookie'' = [''a=1'', ''b=2'']"
    by code_simp
  have s: "res_status cookie_response = 200"
    by (simp add: cookie_response_def)
  have t: "(case res_body cookie_response of None \<Rightarrow> [] | Some bs \<Rightarrow> utf8_text bs) = ''ok''"
    by code_simp
  from toResult_fields [of used_response, THEN conjunct1, THEN mp, OF u]
  have first: "\<exists>msg. toResult used_response = Inl (TypeError msg)" .
  from toResult_fields [of cookie_response, THEN conjunct2, THEN mp, OF n]
  obtain r where fields:
    "toResult cookie_response = Inr r \<and>
     statusCode r = res_status cookie_response \<and>
     result_body r
       = (case res_body cookie_response of None \<Rightarrow> [] | Some bs \<Rightarrow> utf8_text bs) \<and>
     result_isBase64Encoded r = False \<and>
     result_headers r = fromEntries (Headers_entries ?hs) \<and>
     (\<forall>k v. result_headers r k = Some v \<longrightarrow> (k, v) \<in> set (Headers_entries ?hs)) \<and>
     (\<forall>k v. (k, v) \<in> set (Headers_entries ?hs) \<and> k \<noteq> ''set-cookie'' \<longrightarrow>
        result_headers r k = Some v) \<and>
     (values_of ?hs ''set-cookie'' \<noteq> [] \<longrightarrow>
        result_headers r ''set-cookie'' = Some (last (values_of ?hs ''set-cookie'')))"
    by (rule exE)
  note r = fields [THEN conjunct1]
    and rs = fields [THEN conjunct2, THEN conjunct1]
    and rb = fields [THEN conjunct2, THEN conjunct2, THEN conjunct1]
    and rf = fields [THEN conjunct2, THEN conjunct2, THEN conjunct2, THEN conjunct1]
    and rh = fields [THEN conjunct2, THEN conjunct2, THEN conjunct2, THEN conjunct2,
                     THEN conjunct2, THEN conjunct1]
    and re = fields [THEN conjunct2, THEN conjunct2, THEN conjunct2, THEN conjunct2,
                     THEN conjunct2, THEN conjunct2, THEN conjunct1]
    and rc = fields [THEN conjunct2, THEN conjunct2, THEN conjunct2, THEN conjunct2,
                     THEN conjunct2, THEN conjunct2, THEN conjunct2]
  from re have "(''content-type'', ''text/plain'') \<in> set (Headers_entries ?hs) \<and>
                ''content-type'' \<noteq> ''set-cookie'' \<longrightarrow>
                result_headers r ''content-type'' = Some ''text/plain''"
    by blast
  then have ct: "result_headers r ''content-type'' = Some ''text/plain''"
    by (simp add: e)
  from rc have sc: "result_headers r ''set-cookie'' = Some ''b=2''"
    by (simp add: v)
  have xo: "result_headers r ''x-other'' = None"
  proof (cases "result_headers r ''x-other''")
    case None
    then show ?thesis .
  next
    case (Some w)
    with rh have "(''x-other'', w) \<in> set (Headers_entries ?hs)" by blast
    then show ?thesis by (simp add: e)
  qed
  from r rs rb rf ct sc xo s t
  have "toResult cookie_response = Inr r \<and> statusCode r = 200 \<and> result_body r = ''ok'' \<and>
        result_isBase64Encoded r = False \<and>
        result_headers r ''content-type'' = Some ''text/plain'' \<and>
        result_headers r ''set-cookie'' = Some ''b=2'' \<and>
        result_headers r ''x-other'' = None"
    by simp
  then have "\<exists>r. toResult cookie_response = Inr r \<and> statusCode r = 200 \<and>
        result_body r = ''ok'' \<and> result_isBase64Encoded r = False \<and>
        result_headers r ''content-type'' = Some ''text/plain'' \<and>
        result_headers r ''set-cookie'' = Some ''b=2'' \<and>
        result_headers r ''x-other'' = None"
    by (intro exI [of _ r])
  with first show ?thesis by (rule conjI)
qed









text \<open>
  Claim C10. \<open>toRequest\<close> depends on the event only through \<open>rawPath\<close>, the domain name,
  \<open>rawQueryString\<close>, the method, the headers and the body: two events that agree on
  these give the same result, whatever \<open>isBase64Encoded\<close>, \<open>cookies\<close> and the other
  fields say. The body of the request is the body of the event as it is, never decoded.
\<close>

theorem toRequest_depends_on:
  assumes "rawPath e1 = rawPath e2"
    and "domainName (requestContext e1) = domainName (requestContext e2)"
    and "rawQueryString e1 = rawQueryString e2"
    and "http_method (http (requestContext e1)) = http_method (http (requestContext e2))"
    and "headers e1 = headers e2"
    and "body e1 = body e2"
  shows "toRequest e1 = toRequest e2 \<and>
         (\<forall>rq. toRequest e1 = Inr rq \<longrightarrow> req_body rq = body e1)"
proof -
  have "toRequest e1 = toRequest e2"
    unfolding toRequest_def assms by (rule refl)
  moreover have "\<forall>rq. toRequest e1 = Inr rq \<longrightarrow> req_body rq = body e1"
    by (auto simp: toRequest_def Let_def split: sum.splits dest: Request_new_fields)
  ultimately show ?thesis by simp
qed

theorem toRequest_depends_on_witness:
  "toRequest (thing_event\<lparr>isBase64Encoded := False, cookies := None\<rparr>) = toRequest thing_event \<and>
   isBase64Encoded thing_event \<and>
   (\<exists>rq. toRequest thing_event = Inr rq \<and> req_body rq = Some ''eyJuYW1lIjoibXl0aGluZyJ9'')"
  using toRequest_depends_on [of "thing_event\<lparr>isBase64Encoded := False, cookies := None\<rparr>" thing_event]
    thing_event_request
  by (simp add: thing_event_def)

section \<open>The Express adapter's properties\<close>

lemma match_placeholder_braces:
  assumes "n \<noteq> []" and "CHR ''}'' \<notin> set n"
  shows "match_placeholder (CHR ''{'' # n @ CHR ''}'' # rest) = Some (n, rest)"
proof -
  have t: "takeWhile (\<lambda>x. x \<noteq> CHR ''}'') (n @ CHR ''}'' # rest) = n"
    using assms(2) by (induction n) auto
  have d: "dropWhile (\<lambda>x. x \<noteq> CHR ''}'') (n @ CHR ''}'' # rest) = CHR ''}'' # rest"
    using assms(2) by (induction n) auto
  show ?thesis
    using assms(1) by (simp add: match_placeholder_def t d)
qed

lemma match_placeholder_other:
  "c \<noteq> CHR ''{'' \<Longrightarrow> match_placeholder (c # cs) = None"
  by (simp add: match_placeholder_def)

lemma expressPath_segments:
  "list_all wf_segment ts \<Longrightarrow> expressPath (template_text ts) = express_text ts"
proof (induction ts)
  case Nil
  show ?case by (simp add: template_text_def express_text_def)
next
  case (Cons t ts)
  then have ih: "expressPath (template_text ts) = express_text ts" by simp
  show ?case
  proof (cases t)
    case (Lit c)
    with Cons.prems have "c \<noteq> CHR ''{''" by simp
    then show ?thesis
      using ih Lit by (simp add: template_text_def express_text_def match_placeholder_other)
  next
    case (Placeholder n)
    with Cons.prems have n: "n \<noteq> []" "CHR ''}'' \<notin> set n" by simp_all
    have "expressPath (CHR ''{'' # n @ CHR ''}'' # template_text ts)
            = CHR '':'' # n @ expressPath (template_text ts)"
      by (simp add: match_placeholder_braces [OF n])
    then show ?thesis
      using ih Placeholder by (simp add: template_text_def express_text_def)
  qed
qed

lemma no_closing_brace:
  "CHR ''}'' \<notin> set s \<Longrightarrow> match_placeholder s = None"
proof -
  assume a: "CHR ''}'' \<notin> set s"
  show ?thesis
  proof (cases s)
    case Nil
    then show ?thesis by (simp add: match_placeholder_def)
  next
    case (Cons c t)
    with a have "dropWhile (\<lambda>x. x \<noteq> CHR ''}'') t = []"
      by (auto simp: dropWhile_eq_Nil_conv)
    with Cons show ?thesis by (simp add: match_placeholder_def)
  qed
qed

lemma expressPath_unchanged:
  "CHR ''}'' \<notin> set s \<Longrightarrow> expressPath s = s"
proof (induction s)
  case Nil
  show ?case by simp
next
  case (Cons c cs)
  from Cons.prems have "match_placeholder (c # cs) = None" by (rule no_closing_brace)
  with Cons show ?case by simp
qed

text \<open>
  Claim C8. \<open>addRoute\<close> registers the handler under the path in which every placeholder
  \<open>{name}\<close> of the template is written \<open>:name\<close> and every other character is unchanged:
  for a well-formed template, the registration appended to the router has the Express
  text of the template as its path.
\<close>

theorem addRoute_express_path:
  "\<exists>r. addRoute toJsonErrorResponse params = router params @ [r] \<and>
        route_method r = toLowerCase (method' params) \<and>
        route_handler r = handler params \<and>
        (\<forall>ts. list_all wf_segment ts \<and> pathPattern params = template_text ts \<longrightarrow>
           route_path r = express_text ts) \<and>
        (CHR ''}'' \<notin> set (pathPattern params) \<longrightarrow> route_path r = pathPattern params)"
proof -
  let ?r = "\<lparr>route_method = toLowerCase (method' params),
             route_path = expressPath (pathPattern params),
             route_handler = handler params,
             route_toErrorResponse =
               (case toErrorResponse params of None \<Rightarrow> toJsonErrorResponse | Some f \<Rightarrow> f),
             route_port = port params\<rparr>"
  have a: "addRoute toJsonErrorResponse params = router params @ [?r]"
    by (simp add: addRoute_def Let_def)
  have m: "route_method ?r = toLowerCase (method' params)"
    and h: "route_handler ?r = handler params"
    and p: "route_path ?r = expressPath (pathPattern params)"
    by simp_all
  have s: "\<forall>ts. list_all wf_segment ts \<and> pathPattern params = template_text ts \<longrightarrow>
             route_path ?r = express_text ts"
  proof (intro allI impI)
    fix ts
    assume t: "list_all wf_segment ts \<and> pathPattern params = template_text ts"
    then have "expressPath (template_text ts) = express_text ts"
      using expressPath_segments [of ts] by blast
    with t show "route_path ?r = express_text ts"
      unfolding p by simp
  qed
  have u: "CHR ''}'' \<notin> set (pathPattern params) \<longrightarrow> route_path ?r = pathPattern params"
    unfolding p using expressPath_unchanged [of "pathPattern params"] by blast
  from a m h s u show ?thesis by blast
qed

theorem addRoute_express_path_witness:
  "\<exists>r. addRoute () thing_params = [r] \<and> route_method r = ''post'' \<and>
        route_path r = ''/things/:thingId/parts/:partId''"
proof -
  have w: "list_all wf_segment thing_template"
    by (simp add: thing_template_def)
  have p: "pathPattern thing_params = template_text thing_template"
    by (simp add: thing_params_def thing_template_def template_text_def)
  have l: "toLowerCase (method' thing_params) = ''post''"
    unfolding thing_params_def by code_simp
  have e: "express_text thing_template = ''/things/:thingId/parts/:partId''"
    by (simp add: thing_template_def express_text_def)
  have n: "router thing_params = []"
    by (simp add: thing_params_def)
  from addRoute_express_path [of "()" thing_params]
  obtain r where a: "addRoute () thing_params = router thing_params @ [r]"
    and m: "route_method r = toLowerCase (method' thing_params)"
    and t: "\<forall>ts. list_all wf_segment ts \<and> pathPattern thing_params = template_text ts \<longrightarrow>
              route_path r = express_text ts"
    by blast
  from t w p have "route_path r = express_text thing_template" by blast
  then have "route_path r = ''/things/:thingId/parts/:partId''" by (simp only: e)
  moreover from a have "addRoute () thing_params = [r]" by (simp only: n append_Nil)
  moreover from m have "route_method r = ''post''" by (simp only: l)
  ultimately show ?thesis by blast
qed

text \<open>
  The search parameters of the URL the closure builds are those of the URL parsed from
  \<open>req.url\<close>, followed by the string-valued entries of \<open>req.query\<close>.
\<close>

lemma append_entries_params:
  "url_searchParams (append_entries u es) = url_searchParams u @ string_entries es"
proof (induction es arbitrary: u)
  case Nil
  show ?case by simp
next
  case (Cons e es)
  obtain k v where e: "e = (k, v)" by (cases e)
  show ?case
    by (cases v) (simp_all add: e Cons.IH URL_searchParams_append_def Let_def)
qed

lemma requestUrl_params:
  assumes "requestUrl p req = Inr u" and "x_query req = QueryObject es"
  shows "\<exists>u0. URL_new (x_url req) (x_protocol req @ ''://'' @ x_hostname req) = Inr u0 \<and>
              url_searchParams u = url_searchParams u0 @ string_entries es"
  using assms
  by (auto simp: requestUrl_def Let_def append_entries_params URL_set_port_def
           split: sum.splits option.splits)

text \<open>
  Claim C9 says that the URL holds exactly the string-valued entries of \<open>req.query\<close>.
  The code appends them to a URL that already has the query string of \<open>req.url\<close>: for
  the request \<open>/things/1?tag=a&tag=b&page=2\<close> the URL keeps the repeated key \<open>tag\<close>,
  which is an array in \<open>req.query\<close>, and has \<open>page\<close> twice.
\<close>

theorem requestUrl_thing_request:
  "requestUrl None thing_request =
     Inr \<lparr>url_scheme = ''http'', url_username = [], url_password = [],
          url_host = ''localhost'', url_port = None, url_path = [''things'', ''1''],
          url_query = Some ''tag=a&tag=b&page=2&page=2'', url_fragment = None,
          url_searchParams = [(''tag'', ''a''), (''tag'', ''b''), (''page'', ''2''),
                              (''page'', ''2'')]\<rparr> \<and>
   map_sum id URL_href (requestUrl None thing_request)
     = Inr ''http://localhost/things/1?tag=a&tag=b&page=2&page=2'' \<and>
   string_entries [(''tag'', QArray [QString ''a'', QString ''b'']), (''page'', QString ''2'')]
     = [(''page'', ''2'')]"
proof -
  have u: "requestUrl None thing_request =
     Inr \<lparr>url_scheme = ''http'', url_username = [], url_password = [],
          url_host = ''localhost'', url_port = None, url_path = [''things'', ''1''],
          url_query = Some ''tag=a&tag=b&page=2&page=2'', url_fragment = None,
          url_searchParams = [(''tag'', ''a''), (''tag'', ''b''), (''page'', ''2''),
                              (''page'', ''2'')]\<rparr>"
    by code_simp
  have h: "map_sum id URL_href (requestUrl None thing_request)
             = Inr ''http://localhost/things/1?tag=a&tag=b&page=2&page=2''"
    by code_simp
  have s: "string_entries [(''tag'', QArray [QString ''a'', QString ''b'']),
                           (''page'', QString ''2'')] = [(''page'', ''2'')]"
    by simp
  from u h s show ?thesis by (intro conjI)
qed

end
